theory Spec2Isabelle
  imports Complex_Main
begin

section \<open>The Molotov executor of Taurus (bzt/modules/molotov.py)\<close>

text \<open>
  The module launches the external \<open>molotov\<close> tool as a child process: it builds a
  command line from the load specification, spawns the process with redirected output,
  polls it and reads the capture files back when the tool fails.

  Everything the module calls but does not define (\<open>dehumanize_time\<close>,
  \<open>engine.find_file\<close>, \<open>execute\<close>, \<open>shell_exec\<close>, \<open>Popen.poll\<close>,
  \<open>engine.create_artifact\<close>, \<open>time.time\<close>) is a field of the record \<open>engine\<close>
  below, so every theorem holds for each behaviour of these collaborators. The file
  system is a map from file names to what the files hold.
\<close>

subsection \<open>Python values\<close>

text \<open>
  The values that flow through the module. \<open>PFloat\<close> carries the exact value of a
  finite float; \<open>math.ceil\<close> of a finite float is exact, so no rounding is modelled.
\<close>

datatype pyval = PNone | PInt int | PFloat real | PStr string

text \<open>Python's truth value, as \<open>if load.ramp_up:\<close> and \<open>if load.hold:\<close> test it.\<close>

fun truthy :: "pyval \<Rightarrow> bool" where
  "truthy PNone = False"
| "truthy (PInt i) = (i \<noteq> 0)"
| "truthy (PFloat r) = (r \<noteq> 0)"
| "truthy (PStr s) = (s \<noteq> [])"

text \<open>\<open>str\<close> of an integer: decimal digits, with a minus sign when negative.\<close>

fun digits :: "nat \<Rightarrow> string" where
  "digits n =
     (if n < 10 then [''0123456789'' ! n]
      else digits (n div 10) @ [''0123456789'' ! (n mod 10)])"

declare digits.simps [simp del]

definition str_int :: "int \<Rightarrow> string" where
  "str_int i = (if i < 0 then CHR ''-'' # digits (nat (- i)) else digits (nat i))"

text \<open>
  \<open>str.strip()\<close> with no argument removes leading and trailing whitespace. A
  \<open>char\<close> is read as a code point below 256; these are the ones Python 3 counts
  as whitespace.
\<close>

definition is_space :: "char \<Rightarrow> bool" where
  "is_space c =
     (c \<in> set [CHR 0x09, CHR 0x0A, CHR 0x0B, CHR 0x0C, CHR 0x0D, CHR 0x1C, CHR 0x1D,
               CHR 0x1E, CHR 0x1F, CHR 0x20, CHR 0x85, CHR 0xA0])"

definition strip :: "string \<Rightarrow> string" where
  "strip s = rev (dropWhile is_space (rev (dropWhile is_space s)))"

subsection \<open>Exceptions\<close>

text \<open>
  The exceptions the module raises or catches. \<open>ToolError\<close> carries its message and
  its optional list of diagnostics; \<open>OSError\<close> stands for the class with its
  subclasses (\<open>FileNotFoundError\<close> among them); \<open>UnicodeDecodeError\<close> is what
  reading a file in text mode raises on bytes that do not decode; \<open>OtherException\<close>
  is any other exception of a collaborator.
\<close>

datatype error =
    TaurusConfigError string
  | ToolError string "string list option"
  | CalledProcessError
  | OSError
  | UnicodeDecodeError
  | AttributeError
  | OtherException string

subsection \<open>Data\<close>

text \<open>The load specification returned by \<open>get_load()\<close>, with the fields startup reads.\<close>

record load =
  concurrency :: "int option"
  ramp_up :: pyval
  hold :: pyval

text \<open>An open file object: its \<open>name\<close> and its \<open>closed\<close> flag.\<close>

record file_obj =
  name :: string
  is_closed :: bool

type_synonym popen = nat

type_synonym pydict = "string \<rightharpoonup> pyval"

text \<open>
  What a file holds, as a read in text mode sees it: bytes that decode to a text, or bytes
  that do not decode in the encoding \<open>open\<close> uses.
\<close>

datatype contents = Text string | Undecodable

type_synonym files = "string \<rightharpoonup> contents"

text \<open>The attributes of \<open>MolotovExecutor\<close>; \<open>start_time\<close> is assigned by startup.\<close>

record executor =
  process :: "popen option"
  report_file_name :: pyval
  stdout_file :: "file_obj option"
  stderr_file :: "file_obj option"
  tool_path :: pyval
  scenario :: "pydict option"
  start_time :: "real option"

text \<open>The collaborators of the module, outside this file.\<close>

record engine =
  dehumanize_time :: "pyval \<Rightarrow> error + real"
  find_file :: "pyval \<Rightarrow> error + pyval"
  execute :: "pyval list \<Rightarrow> file_obj option \<Rightarrow> file_obj option \<Rightarrow> (string \<times> pyval) list
                \<Rightarrow> error + popen"
  poll :: "popen \<Rightarrow> int option"
  shell_exec :: "pyval list \<Rightarrow> error + popen"
  create_artifact :: "string \<Rightarrow> string \<Rightarrow> string"
  writable :: "string \<Rightarrow> bool"
  now :: real

text \<open>\<open>MolotovExecutor.__init__\<close> (lines 31-38).\<close>

definition init :: executor where
  "init = \<lparr>process = None, report_file_name = PNone, stdout_file = None,
            stderr_file = None, tool_path = PNone, scenario = None, start_time = None\<rparr>"

subsection \<open>Dictionary access\<close>

text \<open>
  Modelled from the spec: \<open>BetterDict.get\<close> of bzt.utils is not among the sources. Called
  with an exception as the default, as \<open>_get_script\<close> does, it raises that exception
  when the key is absent ("if no script is configured in the scenario, fail with a
  configuration error") and returns the stored value otherwise.
\<close>

definition get_or_raise :: "pydict \<Rightarrow> string \<Rightarrow> error \<Rightarrow> error + pyval" where
  "get_or_raise d k exc = (case d k of None \<Rightarrow> Inl exc | Some v \<Rightarrow> Inr v)"

text \<open>
  Modelled from the spec: \<open>BetterDict.get\<close> with a plain default, as
  \<open>install_required_tools\<close> calls it on the settings ("resolved once at prepare time
  from configuration with a default fallback value").
\<close>

definition get_default :: "pydict \<Rightarrow> string \<Rightarrow> pyval \<Rightarrow> pyval" where
  "get_default d k v = (case d k of None \<Rightarrow> v | Some x \<Rightarrow> x)"

subsection \<open>Building the command line and starting the tool\<close>

text \<open>\<open>MolotovExecutor._get_script\<close> (lines 40-43); the argument is \<open>get_scenario()\<close>.\<close>

definition get_script :: "engine \<Rightarrow> pydict \<Rightarrow> error + pyval" where
  "get_script e scn =
     (case get_or_raise scn ''script'' (TaurusConfigError ''You must provide script for Molotov'') of
        Inl x \<Rightarrow> Inl x
      | Inr script \<Rightarrow> find_file e script)"

text \<open>
  Lines 66-85 of \<open>MolotovExecutor.startup\<close>: the command line, built left to right.
  \<open>ld\<close> is the result of \<open>get_load()\<close>. Both the ramp-up and the hold seconds are
  computed from \<open>load.hold\<close>, as lines 75 and 79 do. An exception of
  \<open>dehumanize_time\<close> or of \<open>_get_script\<close> ends the function.
\<close>

definition startup_cmdline :: "engine \<Rightarrow> load \<Rightarrow> pydict \<Rightarrow> executor \<Rightarrow> error + pyval list" where
  "startup_cmdline e ld scn s =
     (let cmdline = [tool_path s];
          cmdline = (case concurrency ld of
                       None \<Rightarrow> cmdline
                     | Some c \<Rightarrow> cmdline @ [PStr ''--workers'', PStr (str_int c)]);
          duration = (0::int)
      in case (if truthy (ramp_up ld) then
                 (case dehumanize_time e (hold ld) of
                    Inl x \<Rightarrow> Inl x
                  | Inr t \<Rightarrow>
                      let ramp = \<lceil>t\<rceil>
                      in Inr (duration + ramp, cmdline @ [PStr ''--ramp-up'', PStr (str_int ramp)]))
               else Inr (duration, cmdline)) of
           Inl x \<Rightarrow> Inl x
         | Inr (duration, cmdline) \<Rightarrow>
             (case (if truthy (hold ld) then
                      (case dehumanize_time e (hold ld) of
                         Inl x \<Rightarrow> Inl x
                       | Inr t \<Rightarrow> Inr (duration + \<lceil>t\<rceil>))
                    else Inr duration) of
                Inl x \<Rightarrow> Inl x
              | Inr duration \<Rightarrow>
                  let cmdline = cmdline @ [PStr ''--duration'', PStr (str_int duration)];
                      cmdline = cmdline @ [PStr ''--use-extension=bzt.resources.molotov_ext'']
                  in (case get_script e scn of
                        Inl x \<Rightarrow> Inl x
                      | Inr script \<Rightarrow> Inr (cmdline @ [script]))))"

text \<open>
  \<open>MolotovExecutor.startup\<close> (lines 63-90): the command line, then the environment,
  the start time and the child process. The start time is assigned before
  \<open>execute\<close> is called, so it stays when \<open>execute\<close> raises.
\<close>

definition startup :: "engine \<Rightarrow> load \<Rightarrow> pydict \<Rightarrow> executor \<Rightarrow> (error + unit) \<times> executor" where
  "startup e ld scn s =
     (case startup_cmdline e ld scn s of
        Inl x \<Rightarrow> (Inl x, s)
      | Inr cmdline \<Rightarrow>
          let env = [(''MOLOTOV_TAURUS_REPORT'', report_file_name s)];
              s = s\<lparr>start_time := Some (now e)\<rparr>
          in (case execute e cmdline (stdout_file s) (stderr_file s) env of
                Inl x \<Rightarrow> (Inl x, s)
              | Inr p \<Rightarrow> (Inr (), s\<lparr>process := Some p\<rparr>)))"

subsection \<open>Diagnostics and polling\<close>

text \<open>
  The body of each \<open>with open(...)\<close> block of \<open>get_error_diagnostics\<close> (lines 120-123
  and 125-128): \<open>open\<close> raises when the file is not there, \<open>fds.read()\<close> raises
  when its bytes do not decode; otherwise the text is stripped, and appended under the
  label when something is left.
\<close>

definition read_capture :: "files \<Rightarrow> file_obj \<Rightarrow> string \<Rightarrow> string list \<Rightarrow> error + string list" where
  "read_capture fs f label diagnostics =
     (case fs (name f) of
        None \<Rightarrow> Inl OSError
      | Some Undecodable \<Rightarrow> Inl UnicodeDecodeError
      | Some (Text text) \<Rightarrow>
          let contents = strip text
          in if strip contents \<noteq> [] then Inr (diagnostics @ [label @ contents])
             else Inr diagnostics)"

text \<open>\<open>MolotovExecutor.get_error_diagnostics\<close> (lines 117-129). No attribute is assigned.\<close>

definition get_error_diagnostics :: "files \<Rightarrow> executor \<Rightarrow> (error + string list) \<times> executor" where
  "get_error_diagnostics fs s =
     (let diagnostics = []
      in case (case stdout_file s of
                 None \<Rightarrow> Inr diagnostics
               | Some f \<Rightarrow> read_capture fs f ''molotov STDOUT:\<newline>'' diagnostics) of
           Inl x \<Rightarrow> (Inl x, s)
         | Inr diagnostics \<Rightarrow>
             (case (case stderr_file s of
                      None \<Rightarrow> Inr diagnostics
                    | Some f \<Rightarrow> read_capture fs f ''molotov STDERR:\<newline>'' diagnostics) of
                Inl x \<Rightarrow> (Inl x, s)
              | Inr diagnostics \<Rightarrow> (Inr diagnostics, s)))"

text \<open>
  \<open>MolotovExecutor.check\<close> (lines 92-98). \<open>self.process\<close> is \<open>None\<close> until startup
  has run, and \<open>None.poll()\<close> raises.
\<close>

definition check :: "engine \<Rightarrow> files \<Rightarrow> executor \<Rightarrow> (error + bool) \<times> executor" where
  "check e fs s =
     (case process s of
        None \<Rightarrow> (Inl AttributeError, s)
      | Some p \<Rightarrow>
          (case poll e p of
             None \<Rightarrow> (Inr False, s)
           | Some ret_code \<Rightarrow>
               if ret_code \<noteq> 0 then
                 (case get_error_diagnostics fs s of
                    (Inl x, s') \<Rightarrow> (Inl x, s')
                  | (Inr diagnostics, s') \<Rightarrow>
                      (Inl (ToolError (''molotov exited with non-zero code: '' @ str_int ret_code)
                                      (Some diagnostics)), s'))
               else (Inr True, s)))"

subsection \<open>The required tool\<close>

text \<open>\<open>Molotov.check_if_installed\<close> (lines 141-147), on the tool's path.\<close>

definition check_if_installed :: "engine \<Rightarrow> pyval \<Rightarrow> error + bool" where
  "check_if_installed e path =
     (case shell_exec e [path, PStr ''-h''] of
        Inl CalledProcessError \<Rightarrow> Inr False
      | Inl OSError \<Rightarrow> Inr False
      | Inl x \<Rightarrow> Inl x
      | Inr p \<Rightarrow> Inr True)"

text \<open>\<open>Molotov.install\<close> (lines 149-150).\<close>

definition install :: "pyval \<Rightarrow> error + unit" where
  "install path = Inl (ToolError ''You must install molotov tool to use it'' None)"

text \<open>\<open>MolotovExecutor.install_required_tools\<close> (lines 109-115).\<close>

definition install_required_tools :: "engine \<Rightarrow> pydict \<Rightarrow> error + pyval" where
  "install_required_tools e settings =
     (let path = get_default settings ''path'' (PStr ''molotov'')
      in case check_if_installed e path of
           Inl x \<Rightarrow> Inl x
         | Inr installed \<Rightarrow>
             if \<not> installed then
               (case install path of Inl x \<Rightarrow> Inl x | Inr u \<Rightarrow> Inr path)
             else Inr path)"

text \<open>\<open>open(name, 'w')\<close>: the file is created or truncated, or the call raises.\<close>

definition open_w :: "engine \<Rightarrow> files \<Rightarrow> string \<Rightarrow> error + (file_obj \<times> files)" where
  "open_w e fs n =
     (if writable e n then Inr (\<lparr>name = n, is_closed = False\<rparr>, fs(n \<mapsto> Text []))
      else Inl OSError)"

text \<open>\<open>MolotovExecutor.prepare\<close> (lines 45-51).\<close>

definition prepare :: "engine \<Rightarrow> pydict \<Rightarrow> files \<Rightarrow> executor \<Rightarrow> (error + unit) \<times> executor \<times> files" where
  "prepare e settings fs s =
     (case install_required_tools e settings of
        Inl x \<Rightarrow> (Inl x, s, fs)
      | Inr path \<Rightarrow>
          let s = s\<lparr>tool_path := path\<rparr>
          in (case open_w e fs (create_artifact e ''molotov'' ''.out'') of
                Inl x \<Rightarrow> (Inl x, s, fs)
              | Inr (out, fs) \<Rightarrow>
                  let s = s\<lparr>stdout_file := Some out\<rparr>
                  in (case open_w e fs (create_artifact e ''molotov'' ''.err'') of
                        Inl x \<Rightarrow> (Inl x, s, fs)
                      | Inr (err, fs) \<Rightarrow>
                          let s = s\<lparr>stderr_file := Some err\<rparr>;
                              s = s\<lparr>report_file_name :=
                                      PStr (create_artifact e ''molotov-report'' ''.csv'')\<rparr>
                          in (Inr (), s, fs))))"

subsection \<open>A sample run\<close>

text \<open>
  A concrete environment and executor, on which the theorems below are instantiated:
  a \<open>dehumanize_time\<close> that knows a few durations, a \<open>find_file\<close> that returns the
  path as it is, and a tool that is installed and still running.
\<close>

definition sample_engine :: engine where
  "sample_engine =
     \<lparr>dehumanize_time =
        (\<lambda>v. case v of
                PNone \<Rightarrow> Inr 0
              | PInt i \<Rightarrow> Inr (of_int i)
              | PFloat r \<Rightarrow> Inr r
              | PStr str \<Rightarrow>
                  if str = ''30s'' then Inr 30
                  else if str = ''1500ms'' then Inr (3 / 2)
                  else Inl (OtherException ''unsupported time'')),
      find_file = (\<lambda>v. Inr v),
      execute = (\<lambda>cmdline out err env. Inr 4242),
      poll = (\<lambda>p. None),
      shell_exec = (\<lambda>cmdline. Inr 4241),
      create_artifact = (\<lambda>prefix suffix. prefix @ suffix),
      writable = (\<lambda>n. True),
      now = 0\<rparr>"

text \<open>The executor once \<open>prepare\<close> has resolved the tool's path.\<close>

definition sample_executor :: executor where
  "sample_executor = init\<lparr>tool_path := PStr ''molotov''\<rparr>"

text \<open>The executor once \<open>prepare\<close> and \<open>startup\<close> have run.\<close>

definition sample_running :: executor where
  "sample_running =
     sample_executor
       \<lparr>process := Some 4242,
        report_file_name := PStr ''molotov-report.csv'',
        stdout_file := Some \<lparr>name = ''molotov.out'', is_closed = False\<rparr>,
        stderr_file := Some \<lparr>name = ''molotov.err'', is_closed = False\<rparr>,
        start_time := Some 0\<rparr>"

section \<open>Properties\<close>

subsection \<open>The command line in closed form\<close>

lemma startup_cmdline_eq:
  assumes conv: "truthy (ramp_up ld) \<or> truthy (hold ld) \<Longrightarrow> dehumanize_time e (hold ld) = Inr t"
      and script: "get_script e scn = Inr script"
  shows "startup_cmdline e ld scn s =
           Inr ([tool_path s]
                @ (case concurrency ld of None \<Rightarrow> [] | Some c \<Rightarrow> [PStr ''--workers'', PStr (str_int c)])
                @ (if truthy (ramp_up ld) then [PStr ''--ramp-up'', PStr (str_int \<lceil>t\<rceil>)] else [])
                @ [PStr ''--duration'',
                   PStr (str_int ((if truthy (ramp_up ld) then \<lceil>t\<rceil> else 0)
                                  + (if truthy (hold ld) then \<lceil>t\<rceil> else 0))),
                   PStr ''--use-extension=bzt.resources.molotov_ext'',
                   script])"
proof (cases "truthy (ramp_up ld) \<or> truthy (hold ld)")
  case True
  then have "dehumanize_time e (hold ld) = Inr t" by (rule conv)
  then show ?thesis
    using script by (simp add: startup_cmdline_def Let_def split: option.split)
next
  case False
  then show ?thesis
    using script by (simp add: startup_cmdline_def Let_def split: option.split)
qed

lemma get_script_found:
  "scn ''script'' = Some v \<Longrightarrow> get_script e scn = find_file e v"
  by (simp add: get_script_def get_or_raise_def)



lemma startup_of_cmdline:
  "startup_cmdline e ld scn s = Inr cmdline \<Longrightarrow>
     startup e ld scn s =
       (case execute e cmdline (stdout_file s) (stderr_file s)
               [(''MOLOTOV_TAURUS_REPORT'', report_file_name s)] of
          Inl x \<Rightarrow> (Inl x, s\<lparr>start_time := Some (now e)\<rparr>)
        | Inr p \<Rightarrow> (Inr (), s\<lparr>start_time := Some (now e), process := Some p\<rparr>))"
  by (simp add: startup_def Let_def split: sum.split)

subsection \<open>The ramp-up argument\<close>

text \<open>
  C1. When \<open>load.ramp_up\<close> is set and non-zero, the value after \<open>--ramp-up\<close> is the
  ceiling of the hold duration in seconds (\<open>load.hold\<close>, not \<open>load.ramp_up\<close>, goes
  through \<open>dehumanize_time\<close>); the flag and the value are appended to the command line,
  and the value is part of the total that follows \<open>--duration\<close>, next to the hold
  seconds when the hold is set.
\<close>

theorem startup_ramp_up_from_hold:
  assumes "truthy (ramp_up ld)"
      and "dehumanize_time e (hold ld) = Inr t"
      and "get_script e scn = Inr script"
  shows "startup_cmdline e ld scn s =
           Inr ([tool_path s]
                @ (case concurrency ld of None \<Rightarrow> [] | Some c \<Rightarrow> [PStr ''--workers'', PStr (str_int c)])
                @ [PStr ''--ramp-up'', PStr (str_int \<lceil>t\<rceil>),
                   PStr ''--duration'',
                   PStr (str_int (\<lceil>t\<rceil> + (if truthy (hold ld) then \<lceil>t\<rceil> else 0))),
                   PStr ''--use-extension=bzt.resources.molotov_ext'',
                   script])"
  using startup_cmdline_eq [of ld e t scn script s] assms by simp

theorem startup_ramp_up_from_hold_witness:
  "truthy (PStr ''5m'')
   \<and> dehumanize_time sample_engine (PStr ''1500ms'') = Inr (3 / 2)
   \<and> get_script sample_engine [''script'' \<mapsto> PStr ''load.py''] = Inr (PStr ''load.py'')
   \<and> startup_cmdline sample_engine
         \<lparr>concurrency = None, ramp_up = PStr ''5m'', hold = PStr ''1500ms''\<rparr>
         [''script'' \<mapsto> PStr ''load.py''] sample_executor =
       Inr [PStr ''molotov'', PStr ''--ramp-up'', PStr ''2'', PStr ''--duration'', PStr ''4'',
            PStr ''--use-extension=bzt.resources.molotov_ext'', PStr ''load.py'']"
proof -
  have a: "truthy (ramp_up \<lparr>concurrency = None, ramp_up = PStr ''5m'', hold = PStr ''1500ms''\<rparr>)"
    by simp
  have b: "dehumanize_time sample_engine
             (hold \<lparr>concurrency = None, ramp_up = PStr ''5m'', hold = PStr ''1500ms''\<rparr>) = Inr (3 / 2)"
    by (simp add: sample_engine_def)
  have c: "get_script sample_engine [''script'' \<mapsto> PStr ''load.py''] = Inr (PStr ''load.py'')"
    by (simp add: get_script_def get_or_raise_def sample_engine_def)
  show ?thesis
    using startup_ramp_up_from_hold [OF a b c, of sample_executor] b c
    by (simp add: sample_executor_def init_def str_int_def digits.simps)
qed

subsection \<open>The shape of the command line\<close>

text \<open>
  C4. When the durations convert and the scenario's script resolves, the command line that
  startup builds and hands to \<open>execute\<close> is
  \<open><tool> [--workers N] [--ramp-up S] --duration S --use-extension=bzt.resources.molotov_ext <script>\<close>:
  \<open>--workers\<close> is there exactly when the concurrency is not \<open>None\<close>,
  \<open>--duration\<close> and the extension flag are always there (the total may be 0), and
  the path returned by \<open>find_file\<close> is the last argument.
\<close>

theorem startup_cmdline_shape:
  assumes "truthy (ramp_up ld) \<or> truthy (hold ld) \<longrightarrow> dehumanize_time e (hold ld) = Inr t"
      and "scn ''script'' = Some v"
      and "find_file e v = Inr script"
  shows "let cmdline =
               [tool_path s]
               @ (case concurrency ld of
                    None \<Rightarrow> []
                  | Some c \<Rightarrow> [PStr ''--workers'', PStr (str_int c)])
               @ (if truthy (ramp_up ld) then [PStr ''--ramp-up'', PStr (str_int \<lceil>t\<rceil>)] else [])
               @ [PStr ''--duration'',
                  PStr (str_int ((if truthy (ramp_up ld) then \<lceil>t\<rceil> else 0)
                                 + (if truthy (hold ld) then \<lceil>t\<rceil> else 0))),
                  PStr ''--use-extension=bzt.resources.molotov_ext'',
                  script]
         in startup_cmdline e ld scn s = Inr cmdline
            \<and> startup e ld scn s =
                (case execute e cmdline (stdout_file s) (stderr_file s)
                        [(''MOLOTOV_TAURUS_REPORT'', report_file_name s)] of
                   Inl x \<Rightarrow> (Inl x, s\<lparr>start_time := Some (now e)\<rparr>)
                 | Inr p \<Rightarrow> (Inr (), s\<lparr>start_time := Some (now e), process := Some p\<rparr>))"
proof -
  have "get_script e scn = Inr script"
    using assms(2,3) by (simp add: get_script_found)
  then have "startup_cmdline e ld scn s =
           Inr ([tool_path s]
                @ (case concurrency ld of None \<Rightarrow> [] | Some c \<Rightarrow> [PStr ''--workers'', PStr (str_int c)])
                @ (if truthy (ramp_up ld) then [PStr ''--ramp-up'', PStr (str_int \<lceil>t\<rceil>)] else [])
                @ [PStr ''--duration'',
                   PStr (str_int ((if truthy (ramp_up ld) then \<lceil>t\<rceil> else 0)
                                  + (if truthy (hold ld) then \<lceil>t\<rceil> else 0))),
                   PStr ''--use-extension=bzt.resources.molotov_ext'',
                   script])"
    using assms(1) by (intro startup_cmdline_eq) simp_all
  then show ?thesis
    unfolding Let_def by (intro conjI startup_of_cmdline) assumption+
qed

theorem startup_cmdline_shape_witness:
  "\<not> truthy (PNone) \<and> \<not> truthy (PInt 0)
   \<and> [''script'' \<mapsto> PStr ''load.py''] ''script'' = Some (PStr ''load.py'')
   \<and> find_file sample_engine (PStr ''load.py'') = Inr (PStr ''load.py'')
   \<and> startup_cmdline sample_engine \<lparr>concurrency = None, ramp_up = PNone, hold = PInt 0\<rparr>
         [''script'' \<mapsto> PStr ''load.py''] sample_executor =
       Inr [PStr ''molotov'', PStr ''--duration'', PStr ''0'',
            PStr ''--use-extension=bzt.resources.molotov_ext'', PStr ''load.py'']
   \<and> startup sample_engine \<lparr>concurrency = None, ramp_up = PNone, hold = PInt 0\<rparr>
         [''script'' \<mapsto> PStr ''load.py''] sample_executor =
       (Inr (), sample_executor\<lparr>start_time := Some 0, process := Some 4242\<rparr>)"
proof -
  have a: "[''script'' \<mapsto> PStr ''load.py''] ''script'' = Some (PStr ''load.py'')" by simp
  have b: "find_file sample_engine (PStr ''load.py'') = Inr (PStr ''load.py'')"
    by (simp add: sample_engine_def)
  have c: "execute sample_engine = (\<lambda>cmdline out err env. Inr 4242)"
    and d: "now sample_engine = 0"
    by (simp_all add: sample_engine_def)
  show ?thesis
    using a b startup_cmdline_shape [of "\<lparr>concurrency = None, ramp_up = PNone, hold = PInt 0\<rparr>"
            sample_engine 0 "[''script'' \<mapsto> PStr ''load.py'']" "PStr ''load.py''"
            "PStr ''load.py''" sample_executor]
    by (simp add: c d Let_def sample_executor_def init_def str_int_def digits.simps)
qed

text \<open>
  C5. For concurrency 10, ramp-up 0 and hold "30s" (thirty seconds), the command line is
  the tool, \<open>--workers 10\<close>, \<open>--duration 30\<close>, the extension flag and the script:
  the total is 30 and no \<open>--ramp-up\<close> flag is among the arguments.
\<close>

theorem startup_workers_10_hold_30s:
  assumes "concurrency ld = Some 10"
      and "ramp_up ld = PInt 0"
      and "hold ld = PStr ''30s''"
      and "dehumanize_time e (PStr ''30s'') = Inr 30"
      and "get_script e scn = Inr script"
  shows "startup_cmdline e ld scn s =
           Inr [tool_path s, PStr ''--workers'', PStr ''10'', PStr ''--duration'', PStr ''30'',
                PStr ''--use-extension=bzt.resources.molotov_ext'', script]"
proof -
  have "startup_cmdline e ld scn s =
           Inr ([tool_path s]
                @ (case concurrency ld of None \<Rightarrow> [] | Some c \<Rightarrow> [PStr ''--workers'', PStr (str_int c)])
                @ (if truthy (ramp_up ld) then [PStr ''--ramp-up'', PStr (str_int \<lceil>30::real\<rceil>)] else [])
                @ [PStr ''--duration'',
                   PStr (str_int ((if truthy (ramp_up ld) then \<lceil>30::real\<rceil> else 0)
                                  + (if truthy (hold ld) then \<lceil>30::real\<rceil> else 0))),
                   PStr ''--use-extension=bzt.resources.molotov_ext'',
                   script])"
    using assms(3,4,5) by (intro startup_cmdline_eq) simp_all
  then show ?thesis
    using assms(1,2,3) by (simp add: str_int_def digits.simps)
qed

theorem startup_workers_10_hold_30s_witness:
  "dehumanize_time sample_engine (PStr ''30s'') = Inr 30
   \<and> get_script sample_engine [''script'' \<mapsto> PStr ''load.py''] = Inr (PStr ''load.py'')
   \<and> startup_cmdline sample_engine
         \<lparr>concurrency = Some 10, ramp_up = PInt 0, hold = PStr ''30s''\<rparr>
         [''script'' \<mapsto> PStr ''load.py''] sample_executor =
       Inr [PStr ''molotov'', PStr ''--workers'', PStr ''10'', PStr ''--duration'', PStr ''30'',
            PStr ''--use-extension=bzt.resources.molotov_ext'', PStr ''load.py'']"
proof -
  have a: "dehumanize_time sample_engine (PStr ''30s'') = Inr 30"
    by (simp add: sample_engine_def)
  have b: "get_script sample_engine [''script'' \<mapsto> PStr ''load.py''] = Inr (PStr ''load.py'')"
    by (simp add: get_script_def get_or_raise_def sample_engine_def)
  show ?thesis
    using a b startup_workers_10_hold_30s [of "\<lparr>concurrency = Some 10, ramp_up = PInt 0, hold = PStr ''30s''\<rparr>"
            sample_engine "[''script'' \<mapsto> PStr ''load.py'']" "PStr ''load.py''" sample_executor]
    by (simp add: sample_executor_def init_def)
qed

subsection \<open>A scenario with no script\<close>




subsection \<open>Stripping and reading the capture files\<close>

lemma dropWhile_id: "xs = [] \<or> \<not> P (hd xs) \<Longrightarrow> dropWhile P xs = xs"
  by (cases xs) auto

lemma strip_blank:
  assumes "\<forall>c\<in>set str. is_space c"
  shows "strip str = []"
proof -
  have blank: "dropWhile is_space str = []"
    using assms by (induction str) simp_all
  show ?thesis by (simp only: strip_def blank) simp
qed


lemma strip_strip: "strip (strip text) = strip text"
proof -
  define u where "u = dropWhile is_space text"
  define w where "w = dropWhile is_space (rev u)"
  have s: "strip text = rev w" by (simp add: strip_def u_def w_def)
  have u_hd: "u = [] \<or> \<not> is_space (hd u)"
    unfolding u_def by (metis hd_dropWhile)
  have ru: "rev u = takeWhile is_space (rev u) @ w"
    by (simp add: w_def)
  then have u_eq: "u = rev w @ rev (takeWhile is_space (rev u))"
    by (metis rev_append rev_rev_ident)
  have "rev w = [] \<or> \<not> is_space (hd (rev w))"
  proof (cases "w = []")
    case True then show ?thesis by simp
  next
    case False
    then have "hd u = hd (rev w)" using u_eq by (metis hd_append2 rev_is_Nil_conv)
    moreover have "u \<noteq> []" using False u_eq by auto
    ultimately show ?thesis using u_hd by simp
  qed
  then have a: "dropWhile is_space (rev w) = rev w" by (rule dropWhile_id)
  have b: "dropWhile is_space w = w" by (simp add: w_def)
  show ?thesis
    unfolding s by (simp add: strip_def a b)
qed

lemma read_capture_found:
  "fs (name f) = Some (Text text) \<Longrightarrow>
     read_capture fs f label ds = Inr (if strip text \<noteq> [] then ds @ [label @ strip text] else ds)"
  by (simp add: read_capture_def Let_def strip_strip)

lemma get_error_diagnostics_state: "snd (get_error_diagnostics fs s) = s"
  by (simp add: get_error_diagnostics_def Let_def split: option.split sum.split)


subsection \<open>Polling the child process\<close>




text \<open>
  C6. While the child process has not exited (\<open>poll\<close> returns \<open>None\<close>), \<open>check\<close>
  returns \<open>False\<close> and the executor is the same afterwards, attribute by attribute.
\<close>

theorem check_still_running:
  assumes "process s = Some p"
      and "poll e p = None"
  shows "check e fs s = (Inr False, s)"
  using assms by (simp add: check_def)

theorem check_still_running_witness:
  "process sample_running = Some 4242
   \<and> poll sample_engine 4242 = None
   \<and> check sample_engine Map.empty sample_running = (Inr False, sample_running)"
proof -
  have a: "process sample_running = Some 4242" by (simp add: sample_running_def)
  have b: "poll sample_engine 4242 = None" by (simp add: sample_engine_def)
  from check_still_running [OF a b, of Map.empty] a b show ?thesis by simp
qed

text \<open>
  C7. Once the child process has exited with code 0, \<open>check\<close> returns \<open>True\<close> and
  changes nothing; a second call, on the executor the first one left and with the exit
  status still 0, returns \<open>True\<close> again, raises nothing and changes nothing.
\<close>

theorem check_finished_idempotent:
  assumes "process s = Some p"
      and "poll e p = Some 0"
      and "poll e' p = Some 0"
  shows "check e fs s = (Inr True, s)
         \<and> check e' fs' (snd (check e fs s)) = (Inr True, s)"
  using assms by (simp add: check_def)

theorem check_finished_idempotent_witness:
  "process sample_running = Some 4242
   \<and> poll (sample_engine\<lparr>poll := \<lambda>p. Some 0\<rparr>) 4242 = Some 0
   \<and> check (sample_engine\<lparr>poll := \<lambda>p. Some 0\<rparr>) Map.empty sample_running =
       (Inr True, sample_running)
   \<and> check (sample_engine\<lparr>poll := \<lambda>p. Some 0\<rparr>) Map.empty
         (snd (check (sample_engine\<lparr>poll := \<lambda>p. Some 0\<rparr>) Map.empty sample_running)) =
       (Inr True, sample_running)"
proof -
  have a: "process sample_running = Some 4242" by (simp add: sample_running_def)
  have b: "poll (sample_engine\<lparr>poll := \<lambda>p. Some 0\<rparr>) 4242 = Some 0" by simp
  from check_finished_idempotent [OF a b b, of Map.empty Map.empty] a b show ?thesis by simp
qed

subsection \<open>Error diagnostics\<close>

text \<open>
  C8. When both capture files are there and hold nothing but whitespace (or nothing at
  all), \<open>get_error_diagnostics\<close> returns the empty list. In every state the call only
  reads: the executor it leaves is the one it was given, and calling it again on the same
  files gives the same result.
\<close>

theorem get_error_diagnostics_blank:
  assumes "stdout_file s = Some out"
      and "stderr_file s = Some err"
      and "fs (name out) = Some (Text captured_out)"
      and "fs (name err) = Some (Text captured_err)"
      and "\<forall>c\<in>set captured_out. is_space c"
      and "\<forall>c\<in>set captured_err. is_space c"
  shows "get_error_diagnostics fs s = (Inr [], s)
         \<and> (\<forall>fs' s'. snd (get_error_diagnostics fs' s') = s'
                \<and> get_error_diagnostics fs' (snd (get_error_diagnostics fs' s')) =
                    get_error_diagnostics fs' s')"
proof -
  have "strip captured_out = []" and "strip captured_err = []"
    using assms(5,6) by (simp_all add: strip_blank)
  then have "get_error_diagnostics fs s = (Inr [], s)"
    using assms(1-4) by (simp add: get_error_diagnostics_def read_capture_found)
  then show ?thesis by (simp add: get_error_diagnostics_state)
qed

theorem get_error_diagnostics_blank_witness:
  "stdout_file sample_running = Some \<lparr>name = ''molotov.out'', is_closed = False\<rparr>
   \<and> stderr_file sample_running = Some \<lparr>name = ''molotov.err'', is_closed = False\<rparr>
   \<and> [''molotov.out'' \<mapsto> Text '' \<newline>'', ''molotov.err'' \<mapsto> Text ''''] ''molotov.out''
       = Some (Text '' \<newline>'')
   \<and> [''molotov.out'' \<mapsto> Text '' \<newline>'', ''molotov.err'' \<mapsto> Text ''''] ''molotov.err''
       = Some (Text '''')
   \<and> is_space CHR '' '' \<and> is_space CHR ''\<newline>''
   \<and> get_error_diagnostics [''molotov.out'' \<mapsto> Text '' \<newline>'', ''molotov.err'' \<mapsto> Text '''']
         sample_running = (Inr [], sample_running)"
proof -
  let ?fs = "[''molotov.out'' \<mapsto> Text '' \<newline>'', ''molotov.err'' \<mapsto> Text '''']"
  let ?out = "\<lparr>name = ''molotov.out'', is_closed = False\<rparr>"
  let ?err = "\<lparr>name = ''molotov.err'', is_closed = False\<rparr>"
  have a: "stdout_file sample_running = Some ?out"
    and b: "stderr_file sample_running = Some ?err"
    by (simp_all add: sample_running_def)
  have c: "?fs (name ?out) = Some (Text '' \<newline>'')" and d: "?fs (name ?err) = Some (Text '''')"
    by simp_all
  have sp: "is_space CHR '' ''" "is_space CHR ''\<newline>''"
    by (simp_all add: is_space_def)
  have e: "\<forall>c\<in>set '' \<newline>''. is_space c" using sp by simp
  have f: "\<forall>c\<in>set ''''. is_space c" by simp
  from get_error_diagnostics_blank [OF a b c d e f]
  have "get_error_diagnostics ?fs sample_running = (Inr [], sample_running)" by blast
  with a b sp show ?thesis by simp
qed

text \<open>
  C10. Before \<open>prepare\<close> has opened the capture files, when \<open>stdout_file\<close> and
  \<open>stderr_file\<close> are \<open>None\<close> as \<open>__init__\<close> leaves them, \<open>get_error_diagnostics\<close>
  reads no file, raises nothing and returns the empty list.
\<close>

theorem get_error_diagnostics_before_prepare:
  assumes "stdout_file s = None"
      and "stderr_file s = None"
  shows "get_error_diagnostics fs s = (Inr [], s)"
  using assms by (simp add: get_error_diagnostics_def)

theorem get_error_diagnostics_before_prepare_witness:
  "stdout_file init = None \<and> stderr_file init = None
   \<and> get_error_diagnostics Map.empty init = (Inr [], init)"
proof -
  have a: "stdout_file init = None" and b: "stderr_file init = None"
    by (simp_all add: init_def)
  from get_error_diagnostics_before_prepare [OF a b, of Map.empty] a b
  show ?thesis by simp
qed

subsection \<open>The installation probe\<close>

text \<open>
  C9. When launching \<open><path> -h\<close> fails with \<open>OSError\<close> (the binary is missing or
  cannot be executed) or \<open>CalledProcessError\<close>, \<open>check_if_installed\<close> returns
  \<open>False\<close> and does not raise; \<open>install\<close> raises the same \<open>ToolError\<close> for every
  path; so \<open>install_required_tools\<close>, and \<open>prepare\<close> with it, raise that
  \<open>ToolError\<close> when the probe of the configured path fails, before any capture file is
  opened.
\<close>

theorem probe_then_install_fails:
  assumes "shell_exec e [path, PStr ''-h''] = Inl OSError
           \<or> shell_exec e [path, PStr ''-h''] = Inl CalledProcessError"
  shows "check_if_installed e path = Inr False
         \<and> (\<forall>p. install p = Inl (ToolError ''You must install molotov tool to use it'' None))
         \<and> (\<forall>settings fs s.
               get_default settings ''path'' (PStr ''molotov'') = path \<longrightarrow>
                 install_required_tools e settings =
                   Inl (ToolError ''You must install molotov tool to use it'' None)
                 \<and> prepare e settings fs s =
                     (Inl (ToolError ''You must install molotov tool to use it'' None), s, fs))"
proof -
  have probe: "check_if_installed e path = Inr False"
    using assms by (auto simp add: check_if_installed_def)
  have inst: "\<And>settings. get_default settings ''path'' (PStr ''molotov'') = path \<Longrightarrow>
          install_required_tools e settings =
            Inl (ToolError ''You must install molotov tool to use it'' None)"
    using probe by (simp add: install_required_tools_def Let_def install_def)
  show ?thesis
    using probe inst by (simp add: install_def prepare_def)
qed

theorem probe_then_install_fails_witness:
  "shell_exec (sample_engine\<lparr>shell_exec := \<lambda>cmdline. Inl OSError\<rparr>) [PStr ''molotov'', PStr ''-h'']
     = Inl OSError
   \<and> get_default Map.empty ''path'' (PStr ''molotov'') = PStr ''molotov''
   \<and> check_if_installed (sample_engine\<lparr>shell_exec := \<lambda>cmdline. Inl OSError\<rparr>) (PStr ''molotov'')
       = Inr False
   \<and> prepare (sample_engine\<lparr>shell_exec := \<lambda>cmdline. Inl OSError\<rparr>) Map.empty Map.empty init =
       (Inl (ToolError ''You must install molotov tool to use it'' None), init, Map.empty)"
proof -
  let ?e = "sample_engine\<lparr>shell_exec := \<lambda>cmdline. Inl OSError\<rparr>"
  have a: "shell_exec ?e [PStr ''molotov'', PStr ''-h''] = Inl OSError" by simp
  then have a': "shell_exec ?e [PStr ''molotov'', PStr ''-h''] = Inl OSError
                 \<or> shell_exec ?e [PStr ''molotov'', PStr ''-h''] = Inl CalledProcessError" ..
  have b: "get_default Map.empty ''path'' (PStr ''molotov'') = PStr ''molotov''"
    by (simp add: get_default_def)
  from probe_then_install_fails [OF a'] a b show ?thesis by blast
qed

subsection \<open>The sample run\<close>

text \<open>
  The sample executor is the one that \<open>prepare\<close> and \<open>startup\<close> reach from
  \<open>__init__\<close> in the sample environment.
\<close>

lemma sample_lifecycle:
  "prepare sample_engine Map.empty Map.empty init =
     (Inr (),
      sample_running\<lparr>process := None, start_time := None\<rparr>,
      [''molotov.out'' \<mapsto> Text '''', ''molotov.err'' \<mapsto> Text ''''])
   \<and> startup sample_engine \<lparr>concurrency = Some 10, ramp_up = PInt 0, hold = PStr ''30s''\<rparr>
         [''script'' \<mapsto> PStr ''load.py'']
         (sample_running\<lparr>process := None, start_time := None\<rparr>) =
       (Inr (), sample_running)"
  by (simp add: prepare_def install_required_tools_def check_if_installed_def get_default_def
        open_w_def startup_def startup_cmdline_def get_script_def get_or_raise_def
        sample_engine_def sample_running_def sample_executor_def init_def Let_def)

end
